theory Spec2Isabelle
  imports Complex_Main
begin

section \<open>JavaScript values\<close>

text \<open>
  A JavaScript number is a double. The literals of the program are decimal constants, so a
  finite number is kept as the rational its literal denotes; the three special values are
  constructors of their own.
\<close>

datatype jsnum = Fin rat | Infinity | NegInfinity | NaN

text \<open>The comparison \<^verbatim>\<open>a <= b\<close> of two numbers: every comparison with NaN is false.\<close>

fun num_le :: "jsnum \<Rightarrow> jsnum \<Rightarrow> bool" where
  "num_le NaN _ = False"
| "num_le _ NaN = False"
| "num_le NegInfinity _ = True"
| "num_le _ Infinity = True"
| "num_le (Fin a) (Fin b) = (a \<le> b)"
| "num_le _ _ = False"

text \<open>The comparison \<^verbatim>\<open>a < b\<close>.\<close>

fun num_less :: "jsnum \<Rightarrow> jsnum \<Rightarrow> bool" where
  "num_less NaN _ = False"
| "num_less _ NaN = False"
| "num_less (Fin a) (Fin b) = (a < b)"
| "num_less NegInfinity NegInfinity = False"
| "num_less NegInfinity _ = True"
| "num_less Infinity _ = False"
| "num_less _ Infinity = True"
| "num_less _ _ = False"

text \<open>\<^verbatim>\<open>Number.isInteger\<close>: finite and without a fractional part.\<close>

fun isInteger :: "jsnum \<Rightarrow> bool" where
  "isInteger (Fin q) = (of_int \<lfloor>q\<rfloor> = q)"
| "isInteger _ = False"

text \<open>
  The values an argument of a JavaScript function can take. \<open>JObject\<close> stands for any
  object, array or function: the code below only ever tests such a value for truthiness
  or compares it with a string.
\<close>

datatype jsval = JUndefined | JNull | JBool bool | JNum jsnum | JStr string | JObject

text \<open>ToBoolean, which the conditional operator and \<^verbatim>\<open>if\<close> apply to their test.\<close>

fun truthy :: "jsval \<Rightarrow> bool" where
  "truthy JUndefined = False"
| "truthy JNull = False"
| "truthy (JBool b) = b"
| "truthy (JNum n) = (n \<noteq> Fin 0 \<and> n \<noteq> NaN)"
| "truthy (JStr s) = (s \<noteq> [])"
| "truthy JObject = True"

section \<open>The performance profile (js/config/performance-profile.js)\<close>

text \<open>
  Each tunable is an object literal with the properties \<^verbatim>\<open>normal\<close> and \<^verbatim>\<open>minimal\<close>,
  read with a computed key \<^verbatim>\<open>TABLE[level]\<close>. An object is an association list from
  property names to values; reading a property that is absent gives \<^verbatim>\<open>undefined\<close>,
  here \<open>None\<close>.
\<close>

type_synonym 'a table = "(string \<times> 'a) list"

record lod =
  nearResolution :: jsnum
  midResolution :: jsnum
  farResolution :: jsnum
  bufferResolution :: jsnum

text \<open>
  The exported constants are module-level objects; \<^verbatim>\<open>const\<close> fixes the binding, not the
  object, so they are the mutable state a call could touch.
\<close>

record tables =
  TERRAIN_LOD :: "lod table"
  VIEW_DISTANCE :: "jsnum table"
  BUFFER_DISTANCE :: "jsnum table"
  CHUNKS_PER_FRAME :: "jsnum table"
  ENVIRONMENT_DENSITY_MULTIPLIER :: "jsnum table"
  STRUCTURE_DENSITY_MULTIPLIER :: "jsnum table"
  STRUCTURE_CHUNKS_PER_FRAME :: "jsnum table"
  ENV_CHUNKS_PER_FRAME :: "jsnum table"
  SHADOW_CASTER_DISTANCE :: "jsnum table"

text \<open>The tables as the module's source text initialises them.\<close>

definition module_tables :: tables where
  "module_tables = \<lparr>
     TERRAIN_LOD =
       [(''normal'', \<lparr>nearResolution = Fin 24, midResolution = Fin 16,
                      farResolution = Fin 12, bufferResolution = Fin 8\<rparr>),
        (''minimal'', \<lparr>nearResolution = Fin 12, midResolution = Fin 8,
                       farResolution = Fin 6, bufferResolution = Fin 4\<rparr>)],
     VIEW_DISTANCE = [(''normal'', Fin 3), (''minimal'', Fin 2)],
     BUFFER_DISTANCE = [(''normal'', Fin 5), (''minimal'', Fin 3)],
     CHUNKS_PER_FRAME = [(''normal'', Fin 2), (''minimal'', Fin 1)],
     ENVIRONMENT_DENSITY_MULTIPLIER = [(''normal'', Fin 1), (''minimal'', Fin (25 / 100))],
     STRUCTURE_DENSITY_MULTIPLIER = [(''normal'', Fin 1), (''minimal'', Fin (2 / 10))],
     STRUCTURE_CHUNKS_PER_FRAME = [(''normal'', Fin 2), (''minimal'', Fin 1)],
     ENV_CHUNKS_PER_FRAME = [(''normal'', Fin 2), (''minimal'', Fin 1)],
     SHADOW_CASTER_DISTANCE = [(''normal'', Infinity), (''minimal'', Fin 0)]
   \<rparr>"

record profile =
  terrainLod :: "lod option"
  viewDistance :: "jsnum option"
  bufferDistance :: "jsnum option"
  chunksPerFrame :: "jsnum option"
  environmentDensity :: "jsnum option"
  structureDensity :: "jsnum option"
  structureChunksPerFrame :: "jsnum option"
  envChunksPerFrame :: "jsnum option"
  shadowCasterDistance :: "jsnum option"

text \<open>
  \<^verbatim>\<open>getPerformanceProfile(isMinimal)\<close>. The argument is whatever the caller passes; the
  conditional operator tests its truthiness. The function takes the module's tables and
  returns them with the profile, so that what a call does to them is part of the model.
\<close>

definition getPerformanceProfile :: "tables \<Rightarrow> jsval \<Rightarrow> profile \<times> tables" where
  "getPerformanceProfile T isMinimal =
     (let level = (if truthy isMinimal then ''minimal'' else ''normal'') in
      (\<lparr>terrainLod = map_of (TERRAIN_LOD T) level,
        viewDistance = map_of (VIEW_DISTANCE T) level,
        bufferDistance = map_of (BUFFER_DISTANCE T) level,
        chunksPerFrame = map_of (CHUNKS_PER_FRAME T) level,
        environmentDensity = map_of (ENVIRONMENT_DENSITY_MULTIPLIER T) level,
        structureDensity = map_of (STRUCTURE_DENSITY_MULTIPLIER T) level,
        structureChunksPerFrame = map_of (STRUCTURE_CHUNKS_PER_FRAME T) level,
        envChunksPerFrame = map_of (ENV_CHUNKS_PER_FRAME T) level,
        shadowCasterDistance = map_of (SHADOW_CASTER_DISTANCE T) level\<rparr>, T))"

text \<open>The profile a call returns on the tables of the module as loaded.\<close>

abbreviation resolve :: "jsval \<Rightarrow> profile" where
  "resolve mode \<equiv> fst (getPerformanceProfile module_tables mode)"

text \<open>The profile assembled from one tier of every table, written out.\<close>

definition tier_profile :: "tables \<Rightarrow> string \<Rightarrow> profile" where
  "tier_profile T level =
     \<lparr>terrainLod = map_of (TERRAIN_LOD T) level,
      viewDistance = map_of (VIEW_DISTANCE T) level,
      bufferDistance = map_of (BUFFER_DISTANCE T) level,
      chunksPerFrame = map_of (CHUNKS_PER_FRAME T) level,
      environmentDensity = map_of (ENVIRONMENT_DENSITY_MULTIPLIER T) level,
      structureDensity = map_of (STRUCTURE_DENSITY_MULTIPLIER T) level,
      structureChunksPerFrame = map_of (STRUCTURE_CHUNKS_PER_FRAME T) level,
      envChunksPerFrame = map_of (ENV_CHUNKS_PER_FRAME T) level,
      shadowCasterDistance = map_of (SHADOW_CASTER_DISTANCE T) level\<rparr>"

section \<open>The same module on a heap of objects\<close>

text \<open>
  The record of tables above keeps what a call computes and nothing of where the objects
  live. To say what a call does to the objects of the program, the module is laid out on
  a heap: every object literal is an object at an address, a property holds a number or
  a reference to another object, and the identifiers \<^verbatim>\<open>TERRAIN_LOD\<close>, ...,
  \<^verbatim>\<open>SHADOW_CASTER_DISTANCE\<close> are bound to addresses. The bindings are \<^verbatim>\<open>const\<close> and
  cannot be reassigned, so they are an argument of the call and not part of its result;
  the objects they refer to can be written, so the heap is passed in and returned.
\<close>

type_synonym addr = nat

datatype hval = HNum jsnum | HRef addr | HUndefined

type_synonym hobject = "(string \<times> hval) list"

type_synonym heap = "hobject list"

record module_env =
  TERRAIN_LOD_at :: addr
  VIEW_DISTANCE_at :: addr
  BUFFER_DISTANCE_at :: addr
  CHUNKS_PER_FRAME_at :: addr
  ENVIRONMENT_DENSITY_MULTIPLIER_at :: addr
  STRUCTURE_DENSITY_MULTIPLIER_at :: addr
  STRUCTURE_CHUNKS_PER_FRAME_at :: addr
  ENV_CHUNKS_PER_FRAME_at :: addr
  SHADOW_CASTER_DISTANCE_at :: addr

text \<open>Every binding refers to an object of the heap; a reference never dangles.\<close>

definition wf_env :: "module_env \<Rightarrow> heap \<Rightarrow> bool" where
  "wf_env E h =
     (TERRAIN_LOD_at E < length h \<and> VIEW_DISTANCE_at E < length h
      \<and> BUFFER_DISTANCE_at E < length h \<and> CHUNKS_PER_FRAME_at E < length h
      \<and> ENVIRONMENT_DENSITY_MULTIPLIER_at E < length h
      \<and> STRUCTURE_DENSITY_MULTIPLIER_at E < length h
      \<and> STRUCTURE_CHUNKS_PER_FRAME_at E < length h \<and> ENV_CHUNKS_PER_FRAME_at E < length h
      \<and> SHADOW_CASTER_DISTANCE_at E < length h)"

text \<open>
  The read \<^verbatim>\<open>obj[key]\<close> of the object at an address: the value of the property, or
  \<^verbatim>\<open>undefined\<close> when the object has no such property. It leaves the heap alone. (An
  address outside the heap does not occur under \<open>wf_env\<close>; the read gives
  \<^verbatim>\<open>undefined\<close> there.)
\<close>

definition get_prop :: "heap \<Rightarrow> addr \<Rightarrow> string \<Rightarrow> hval" where
  "get_prop h a key =
     (if a < length h
      then (case map_of (h ! a) key of Some v \<Rightarrow> v | None \<Rightarrow> HUndefined)
      else HUndefined)"

text \<open>An object literal: a new object at the next free address; no other object changes.\<close>

definition alloc :: "heap \<Rightarrow> hobject \<Rightarrow> addr \<times> heap" where
  "alloc h ob = (length h, h @ [ob])"

text \<open>
  The heap after the module's top-level declarations have run: the two resolution
  objects of \<^verbatim>\<open>TERRAIN_LOD\<close> at 0 and 1, then the nine tables in source order.
\<close>

definition module_heap :: heap where
  "module_heap =
     [[(''nearResolution'', HNum (Fin 24)), (''midResolution'', HNum (Fin 16)),
       (''farResolution'', HNum (Fin 12)), (''bufferResolution'', HNum (Fin 8))],
      [(''nearResolution'', HNum (Fin 12)), (''midResolution'', HNum (Fin 8)),
       (''farResolution'', HNum (Fin 6)), (''bufferResolution'', HNum (Fin 4))],
      [(''normal'', HRef 0), (''minimal'', HRef 1)],
      [(''normal'', HNum (Fin 3)), (''minimal'', HNum (Fin 2))],
      [(''normal'', HNum (Fin 5)), (''minimal'', HNum (Fin 3))],
      [(''normal'', HNum (Fin 2)), (''minimal'', HNum (Fin 1))],
      [(''normal'', HNum (Fin 1)), (''minimal'', HNum (Fin (25 / 100)))],
      [(''normal'', HNum (Fin 1)), (''minimal'', HNum (Fin (2 / 10)))],
      [(''normal'', HNum (Fin 2)), (''minimal'', HNum (Fin 1))],
      [(''normal'', HNum (Fin 2)), (''minimal'', HNum (Fin 1))],
      [(''normal'', HNum Infinity), (''minimal'', HNum (Fin 0))]]"

definition module_env :: module_env where
  "module_env =
     \<lparr>TERRAIN_LOD_at = 2, VIEW_DISTANCE_at = 3, BUFFER_DISTANCE_at = 4,
      CHUNKS_PER_FRAME_at = 5, ENVIRONMENT_DENSITY_MULTIPLIER_at = 6,
      STRUCTURE_DENSITY_MULTIPLIER_at = 7, STRUCTURE_CHUNKS_PER_FRAME_at = 8,
      ENV_CHUNKS_PER_FRAME_at = 9, SHADOW_CASTER_DISTANCE_at = 10\<rparr>"

text \<open>
  \<^verbatim>\<open>getPerformanceProfile(isMinimal)\<close> statement by statement: the conditional, nine
  property reads, and the object literal that is returned. The result is the address of
  the new object and the heap. The property \<^verbatim>\<open>terrainLod\<close> of the new object holds the
  reference read from the table, that is, the table's own resolution object and not a
  copy of it.
\<close>

definition getPerformanceProfile_heap :: "module_env \<Rightarrow> heap \<Rightarrow> jsval \<Rightarrow> addr \<times> heap" where
  "getPerformanceProfile_heap E h isMinimal =
     (let level = (if truthy isMinimal then ''minimal'' else ''normal'') in
      alloc h
        [(''terrainLod'', get_prop h (TERRAIN_LOD_at E) level),
         (''viewDistance'', get_prop h (VIEW_DISTANCE_at E) level),
         (''bufferDistance'', get_prop h (BUFFER_DISTANCE_at E) level),
         (''chunksPerFrame'', get_prop h (CHUNKS_PER_FRAME_at E) level),
         (''environmentDensity'', get_prop h (ENVIRONMENT_DENSITY_MULTIPLIER_at E) level),
         (''structureDensity'', get_prop h (STRUCTURE_DENSITY_MULTIPLIER_at E) level),
         (''structureChunksPerFrame'', get_prop h (STRUCTURE_CHUNKS_PER_FRAME_at E) level),
         (''envChunksPerFrame'', get_prop h (ENV_CHUNKS_PER_FRAME_at E) level),
         (''shadowCasterDistance'', get_prop h (SHADOW_CASTER_DISTANCE_at E) level)])"

text \<open>
  Reading a profile object back from the heap, to compare the two models: a number
  property as a number, the resolution object behind a reference as a \<open>lod\<close> record.
\<close>

fun num_of :: "hval \<Rightarrow> jsnum option" where
  "num_of (HNum n) = Some n"
| "num_of _ = None"

fun lod_of :: "heap \<Rightarrow> hval \<Rightarrow> lod option" where
  "lod_of h (HRef r) =
     (case (num_of (get_prop h r ''nearResolution''), num_of (get_prop h r ''midResolution''),
            num_of (get_prop h r ''farResolution''), num_of (get_prop h r ''bufferResolution'')) of
        (Some n, Some m, Some f, Some b) \<Rightarrow>
          Some \<lparr>nearResolution = n, midResolution = m, farResolution = f, bufferResolution = b\<rparr>
      | _ \<Rightarrow> None)"
| "lod_of h _ = None"

definition read_profile :: "heap \<Rightarrow> addr \<Rightarrow> profile" where
  "read_profile h a =
     \<lparr>terrainLod = lod_of h (get_prop h a ''terrainLod''),
      viewDistance = num_of (get_prop h a ''viewDistance''),
      bufferDistance = num_of (get_prop h a ''bufferDistance''),
      chunksPerFrame = num_of (get_prop h a ''chunksPerFrame''),
      environmentDensity = num_of (get_prop h a ''environmentDensity''),
      structureDensity = num_of (get_prop h a ''structureDensity''),
      structureChunksPerFrame = num_of (get_prop h a ''structureChunksPerFrame''),
      envChunksPerFrame = num_of (get_prop h a ''envChunksPerFrame''),
      shadowCasterDistance = num_of (get_prop h a ''shadowCasterDistance'')\<rparr>"

section \<open>The scene optimiser (js/game/SceneOptimizer.js)\<close>

text \<open>
  The part of a three.js scene graph that \<^verbatim>\<open>optimizeScene\<close> reads or writes. The flags
  \<^verbatim>\<open>isMesh\<close> and \<^verbatim>\<open>isLight\<close> are absent (falsy) on objects of other classes;
  \<^verbatim>\<open>castShadow\<close> and \<^verbatim>\<open>receiveShadow\<close> are the booleans three.js declares on every
  object. A texture filter is one of the library's integer constants.
\<close>

definition NearestFilter :: nat where
  "NearestFilter = 1003"

record texture =
  anisotropy :: nat
  minFilter :: nat
  magFilter :: nat
  generateMipmaps :: bool

record material =
  precision :: "string option"
  fog :: bool
  map_tex :: "texture option"
  flatShading :: bool

text \<open>
  \<^verbatim>\<open>object.material\<close> is absent, one material, or an array of materials
  (\<^verbatim>\<open>Array.isArray(object.material) ? object.material : [object.material]\<close>).
\<close>

datatype material_slot = NoMaterial | OneMaterial material | MaterialArray "material list"

record shadow_camera =
  isOrthographicCamera :: bool
  cam_left :: int
  cam_right :: int
  cam_top :: int
  cam_bottom :: int

record light_shadow =
  mapSize_width :: nat
  mapSize_height :: nat
  camera :: "shadow_camera option"

record object_props =
  isMesh :: bool
  isLight :: bool
  frustumCulled :: bool
  castShadow :: bool
  receiveShadow :: bool
  matrixAutoUpdate :: bool
  material :: material_slot
  shadow :: "light_shadow option"

text \<open>An object with its children; the scene is the root of such a tree.\<close>

datatype object3d = Object3D (props: object_props) (children: "object3d list")

record scene =
  scene_fog :: bool
  scene_graph :: object3d

text \<open>The body of \<^verbatim>\<open>materials.forEach(material => ...)\<close>.\<close>

definition optimize_material :: "bool \<Rightarrow> bool \<Rightarrow> material \<Rightarrow> material" where
  "optimize_material isMinimal sceneFog m =
     (let m1 = m\<lparr>precision := Some (if isMinimal then ''lowp'' else ''mediump''),
                 fog := sceneFog\<rparr>;
          m2 = (case map_tex m1 of
                  None \<Rightarrow> m1
                | Some t \<Rightarrow>
                    (let t1 = t\<lparr>anisotropy := 1\<rparr>;
                         t2 = (if isMinimal
                               then t1\<lparr>minFilter := NearestFilter, magFilter := NearestFilter,
                                       generateMipmaps := False\<rparr>
                               else t1)
                     in m1\<lparr>map_tex := Some t2\<rparr>))
      in if isMinimal then m2\<lparr>flatShading := True\<rparr> else m2)"

fun optimize_materials :: "bool \<Rightarrow> bool \<Rightarrow> material_slot \<Rightarrow> material_slot" where
  "optimize_materials isMinimal sceneFog NoMaterial = NoMaterial"
| "optimize_materials isMinimal sceneFog (OneMaterial m) =
     OneMaterial (optimize_material isMinimal sceneFog m)"
| "optimize_materials isMinimal sceneFog (MaterialArray ms) =
     MaterialArray (map (optimize_material isMinimal sceneFog) ms)"

text \<open>The branch \<^verbatim>\<open>if (object.isMesh) { ... }\<close> of the callback.\<close>

definition optimize_mesh_part :: "bool \<Rightarrow> bool \<Rightarrow> object_props \<Rightarrow> object_props" where
  "optimize_mesh_part isMinimal sceneFog ob =
     (if isMesh ob then
        (let o1 = ob\<lparr>frustumCulled := True\<rparr>;
             o2 = (if isMinimal then o1\<lparr>castShadow := False, receiveShadow := False\<rparr>
                   else if castShadow o1 then o1\<lparr>castShadow := True, matrixAutoUpdate := True\<rparr>
                   else o1)
         in o2\<lparr>material := optimize_materials isMinimal sceneFog (material o2)\<rparr>)
      else ob)"

text \<open>
  The branch \<^verbatim>\<open>if (object.isLight) { ... }\<close>. The call
  \<^verbatim>\<open>camera.updateProjectionMatrix()\<close> recomputes a matrix of the camera that is not
  part of this model.
\<close>

definition optimize_light_part :: "bool \<Rightarrow> object_props \<Rightarrow> object_props" where
  "optimize_light_part isMinimal ob =
     (if isLight ob then
        (case shadow ob of
           None \<Rightarrow> ob
         | Some sh \<Rightarrow>
             if isMinimal then ob\<lparr>castShadow := False\<rparr>
             else
               (let sh1 = sh\<lparr>mapSize_width := 1024, mapSize_height := 1024\<rparr>;
                    sh2 = (case camera sh1 of
                             None \<Rightarrow> sh1
                           | Some c \<Rightarrow>
                               if isOrthographicCamera c
                               then sh1\<lparr>camera := Some (c\<lparr>cam_left := - 20, cam_right := 20,
                                                           cam_top := 20, cam_bottom := - 20\<rparr>)\<rparr>
                               else sh1)
                in ob\<lparr>shadow := Some sh2\<rparr>))
      else ob)"

text \<open>The whole callback passed to \<^verbatim>\<open>scene.traverse\<close>: the mesh branch, then the light branch.\<close>

definition optimize_object :: "bool \<Rightarrow> bool \<Rightarrow> object_props \<Rightarrow> object_props" where
  "optimize_object isMinimal sceneFog ob =
     optimize_light_part isMinimal (optimize_mesh_part isMinimal sceneFog ob)"

text \<open>
  \<^verbatim>\<open>Object3D.traverse(callback)\<close> of three.js: the callback on the object itself, then
  the traversal of each child in order.
\<close>

fun traverse :: "(object_props \<Rightarrow> object_props) \<Rightarrow> object3d \<Rightarrow> object3d" where
  "traverse f (Object3D p cs) = Object3D (f p) (map (traverse f) cs)"

text \<open>The objects of a graph in the order the traversal visits them.\<close>

fun objects :: "object3d \<Rightarrow> object_props list" where
  "objects (Object3D p cs) = p # concat (map objects cs)"

text \<open>
  \<^verbatim>\<open>optimizeScene(scene, qualityLevel = 'ultra')\<close>: the default stands in for an argument
  that is \<^verbatim>\<open>undefined\<close>, and \<^verbatim>\<open>===\<close> against a string literal holds of that string
  only. The closing \<^verbatim>\<open>console.debug\<close> is left out.
\<close>

definition optimizeScene :: "scene \<Rightarrow> jsval \<Rightarrow> scene" where
  "optimizeScene sc qualityLevel =
     (let q = (if qualityLevel = JUndefined then JStr ''ultra'' else qualityLevel);
          isMinimal = (q = JStr ''minimal'')
      in sc\<lparr>scene_graph := traverse (optimize_object isMinimal (scene_fog sc)) (scene_graph sc)\<rparr>)"

section \<open>The gameplay settings tab (GameplayTab.js)\<close>

text \<open>
  \<^verbatim>\<open>STORAGE_KEYS\<close> is imported from a module outside the sources at hand, so the key
  strings are a parameter. \<^verbatim>\<open>localStorage\<close> is a map from keys to strings.
\<close>

record storage_keys =
  DIFFICULTY :: string
  CUSTOM_SKILLS :: string
  CAMERA_ZOOM :: string
  MINIMAL_MODE :: string
  QUALITY_LEVEL :: string
  TARGET_FPS :: string
  SHOW_PERFORMANCE_INFO :: string
  DEBUG_MODE :: string
  LOG_ENABLED :: string

type_synonym storage = "string \<rightharpoonup> string"

text \<open>
  \<^verbatim>\<open>localStorage.setItem\<close> can throw: \<^verbatim>\<open>QuotaExceededError\<close> when the browser will not
  store the new value (the quota is reached, or storage is disabled), \<^verbatim>\<open>SecurityError\<close>
  when access is denied. Which writes a browser refuses is its own business, so it is a
  parameter: a policy that says, for the stored contents, the key and the value, whether
  the write is refused and with which exception.
\<close>

datatype dom_exception = QuotaExceededError | SecurityError

type_synonym write_policy = "storage \<Rightarrow> string \<Rightarrow> string \<Rightarrow> dom_exception option"

text \<open>A refused write throws and leaves the storage as it was.\<close>

definition setItem :: "write_policy \<Rightarrow> string \<Rightarrow> string \<Rightarrow> storage \<Rightarrow> dom_exception + storage" where
  "setItem P k v st = (case P st k v of Some e \<Rightarrow> Inl e | None \<Rightarrow> Inr (st(k \<mapsto> v)))"

text \<open>
  Neither function below has a \<^verbatim>\<open>try\<close>: an exception thrown by a write ends the function
  there. A run is the storage reached so far together with the exception that ended it,
  if any; a write after the exception does not happen.
\<close>

type_synonym run = "storage \<times> dom_exception option"

definition write_item :: "write_policy \<Rightarrow> string \<Rightarrow> string \<Rightarrow> run \<Rightarrow> run" where
  "write_item P k v r =
     (case r of
        (st, Some e) \<Rightarrow> (st, Some e)
      | (st, None) \<Rightarrow>
          (case setItem P k v st of Inl e \<Rightarrow> (st, Some e) | Inr st' \<Rightarrow> (st', None)))"

text \<open>The string of a boolean, as \<^verbatim>\<open>toString\<close> and \<^verbatim>\<open>setItem\<close> produce it.\<close>

definition bool_string :: "bool \<Rightarrow> string" where
  "bool_string b = (if b then ''true'' else ''false'')"

text \<open>
  The form controls of the tab. Each is looked up by id and may be missing (\<open>None\<close>);
  a control that is present is modelled by the one property the code reads from it: the
  \<^verbatim>\<open>value\<close> string of a select or slider, the \<^verbatim>\<open>checked\<close> flag of a checkbox.
\<close>

record gameplay_tab =
  difficultySelect :: "string option"
  customSkillsCheckbox :: "bool option"
  cameraZoomSlider :: "string option"
  minimalModeCheckbox :: "bool option"
  fpsSlider :: "string option"
  showPerformanceInfoCheckbox :: "bool option"
  debugModeCheckbox :: "bool option"
  logEnabledCheckbox :: "bool option"
  hasPerformanceManager :: bool

text \<open>
  The \<^verbatim>\<open>change\<close> listener of the minimal-mode checkbox (it is only registered when the
  checkbox exists). It returns the storage, the quality level handed to
  \<^verbatim>\<open>performanceManager.applyQualitySettings\<close> (reached only when both writes went
  through and there is a performance manager), and the exception that ended it, if any;
  the notification it then shows is left out.
\<close>

definition minimalModeChanged ::
    "write_policy \<Rightarrow> storage_keys \<Rightarrow> gameplay_tab \<Rightarrow> storage
       \<Rightarrow> storage \<times> string option \<times> dom_exception option" where
  "minimalModeChanged P K tab st =
     (case minimalModeCheckbox tab of
        None \<Rightarrow> (st, None, None)
      | Some isMinimal \<Rightarrow>
          (let r1 = write_item P (MINIMAL_MODE K) (bool_string isMinimal) (st, None);
               r2 = write_item P (QUALITY_LEVEL K) (if isMinimal then ''minimal'' else ''ultra'') r1
           in (case r2 of
                 (st', Some e) \<Rightarrow> (st', None, Some e)
               | (st', None) \<Rightarrow>
                   (st', if hasPerformanceManager tab
                         then Some (if isMinimal then ''minimal'' else ''ultra'') else None,
                    None))))"

text \<open>
  \<^verbatim>\<open>saveSettings()\<close>, as far as \<^verbatim>\<open>localStorage\<close> goes; the difficulty it also hands to
  the game object is left out.
\<close>

definition saveSettings :: "write_policy \<Rightarrow> storage_keys \<Rightarrow> gameplay_tab \<Rightarrow> storage \<Rightarrow> run" where
  "saveSettings P K tab st =
     (let r1 = (case difficultySelect tab of
                  None \<Rightarrow> (st, None)
                | Some v \<Rightarrow>
                    write_item P (DIFFICULTY K) (if v = [] then ''basic'' else v) (st, None));
          r2 = (case customSkillsCheckbox tab of
                  None \<Rightarrow> r1
                | Some c \<Rightarrow> write_item P (CUSTOM_SKILLS K) (bool_string c) r1);
          r3 = (case cameraZoomSlider tab of
                  None \<Rightarrow> r2
                | Some v \<Rightarrow> write_item P (CAMERA_ZOOM K) v r2);
          r4 = (case minimalModeCheckbox tab of
                  None \<Rightarrow> r3
                | Some isMinimal \<Rightarrow>
                    write_item P (QUALITY_LEVEL K) (if isMinimal then ''minimal'' else ''ultra'')
                      (write_item P (MINIMAL_MODE K) (bool_string isMinimal) r3));
          r5 = (case fpsSlider tab of
                  None \<Rightarrow> r4
                | Some v \<Rightarrow> write_item P (TARGET_FPS K) v r4);
          r6 = (case showPerformanceInfoCheckbox tab of
                  None \<Rightarrow> r5
                | Some c \<Rightarrow> write_item P (SHOW_PERFORMANCE_INFO K) (bool_string c) r5);
          r7 = (case debugModeCheckbox tab of
                  None \<Rightarrow> r6
                | Some c \<Rightarrow> write_item P (DEBUG_MODE K) (bool_string c) r6)
      in (case logEnabledCheckbox tab of
            None \<Rightarrow> r7
          | Some c \<Rightarrow> write_item P (LOG_ENABLED K) (bool_string c) r7))"

section \<open>The generation scheduler\<close>

text \<open>
  Modelled from the spec: the frame scheduler (GenerationScheduler.step) and the chunk
  state it works on are not among the sources at hand. The definitions of this section
  follow sections 3, 4.3 and 4.4 of the specification.
\<close>

type_synonym coord = "int \<times> int"

datatype lodTier = near | mid | far | buffer | unloaded

datatype generationStage =
  absent | terrainQueued | terrainReady | structuresQueued | structuresReady
  | environmentQueued | fullyPopulated

record chunk_state =
  chunk_lodTier :: lodTier
  chunk_stage :: generationStage
  lastTouchedFrame :: nat

text \<open>
  Modelled from the spec: the three per-frame quotas of a profile, "non-negative integer
  quotas, independent per work category": the terrain quota is the profile's
  chunksPerFrame, the structure quota its structureChunksPerFrame, the environment quota
  its envChunksPerFrame.
\<close>

record quotas =
  terrainQuota :: nat
  structureQuota :: nat
  environmentQuota :: nat

datatype action =
  GenerateTerrain coord lodTier
  | GenerateStructures coord
  | GenerateEnvironment coord
  | Evict coord

fun is_terrain :: "action \<Rightarrow> bool" where
  "is_terrain (GenerateTerrain _ _) = True"
| "is_terrain _ = False"

fun is_structure :: "action \<Rightarrow> bool" where
  "is_structure (GenerateStructures _) = True"
| "is_structure _ = False"

fun is_environment :: "action \<Rightarrow> bool" where
  "is_environment (GenerateEnvironment _) = True"
| "is_environment _ = False"

text \<open>
  Modelled from the spec: the stage of a coordinate; one with no resident state is
  \<open>absent\<close> ("a ChunkState is created the first frame its coordinate enters the buffer
  radius (absent stage)").
\<close>

definition stage_of :: "(coord \<times> chunk_state) list \<Rightarrow> coord \<Rightarrow> generationStage" where
  "stage_of resident c = (case map_of resident c of None \<Rightarrow> absent | Some s \<Rightarrow> chunk_stage s)"

text \<open>
  Modelled from the spec: "for resident - desired, it must enqueue eviction"; "eviction is
  not quota-limited".
\<close>

definition evictions :: "(coord \<times> lodTier) list \<Rightarrow> (coord \<times> chunk_state) list \<Rightarrow> action list" where
  "evictions desired resident =
     map Evict (filter (\<lambda>c. c \<notin> set (map fst desired)) (map fst resident))"

text \<open>
  Modelled from the spec: the walk over the desired chunks, nearest first, with what is
  left of each quota. The transitions absent to terrainQueued, terrainReady to
  structuresQueued and structuresReady to environmentQueued "each consume one unit of the
  relevant quota"; "exceeding any quota in a frame defers the remaining work to the next
  frame"; the other stages await completion and emit nothing.
\<close>

fun schedule ::
    "nat \<Rightarrow> nat \<Rightarrow> nat \<Rightarrow> (coord \<Rightarrow> generationStage) \<Rightarrow> (coord \<times> lodTier) list \<Rightarrow> action list" where
  "schedule t s e stage [] = []"
| "schedule t s e stage ((c, tier) # rest) =
     (case stage c of
        absent \<Rightarrow>
          (if 0 < t then GenerateTerrain c tier # schedule (t - 1) s e stage rest
           else schedule t s e stage rest)
      | terrainReady \<Rightarrow>
          (if 0 < s then GenerateStructures c # schedule t (s - 1) e stage rest
           else schedule t s e stage rest)
      | structuresReady \<Rightarrow>
          (if 0 < e then GenerateEnvironment c # schedule t s (e - 1) stage rest
           else schedule t s e stage rest)
      | _ \<Rightarrow> schedule t s e stage rest)"

text \<open>
  Modelled from the spec: \<open>step(desired, resident, profile)\<close>, called once per frame;
  "within one frame, eviction actions are applied before generation actions".
\<close>

definition step ::
    "(coord \<times> lodTier) list \<Rightarrow> (coord \<times> chunk_state) list \<Rightarrow> quotas \<Rightarrow> action list" where
  "step desired resident q =
     evictions desired resident
     @ schedule (terrainQuota q) (structureQuota q) (environmentQuota q)
         (stage_of resident) desired"

section \<open>Sample inputs\<close>

text \<open>
  A small scene: the scene object itself, one mesh that casts and receives shadows and
  carries a textured material, and one light with a shadow and an orthographic shadow
  camera.
\<close>

definition example_scene :: scene where
  "example_scene =
     \<lparr>scene_fog = True,
      scene_graph =
        Object3D
          \<lparr>isMesh = False, isLight = False, frustumCulled = True, castShadow = False,
            receiveShadow = False, matrixAutoUpdate = True, material = NoMaterial,
            shadow = None\<rparr>
          [Object3D
             \<lparr>isMesh = True, isLight = False, frustumCulled = False, castShadow = True,
               receiveShadow = True, matrixAutoUpdate = False,
               material = OneMaterial
                 \<lparr>precision = None, fog = False,
                   map_tex = Some \<lparr>anisotropy = 4, minFilter = 1008, magFilter = 1006,
                                    generateMipmaps = True\<rparr>,
                   flatShading = False\<rparr>,
               shadow = None\<rparr> [],
           Object3D
             \<lparr>isMesh = False, isLight = True, frustumCulled = True, castShadow = True,
               receiveShadow = False, matrixAutoUpdate = True, material = NoMaterial,
               shadow = Some \<lparr>mapSize_width = 512, mapSize_height = 512,
                               camera = Some \<lparr>isOrthographicCamera = True, cam_left = - 5,
                                               cam_right = 5, cam_top = 5, cam_bottom = - 5\<rparr>\<rparr>\<rparr> []]\<rparr>"



definition refuse_all :: write_policy where
  "refuse_all st k v = Some QuotaExceededError"

text \<open>Nine distinct key strings, and a tab on which every control is present.\<close>

definition example_keys :: storage_keys where
  "example_keys =
     \<lparr>DIFFICULTY = ''difficulty'', CUSTOM_SKILLS = ''custom_skills'',
      CAMERA_ZOOM = ''camera_zoom'', MINIMAL_MODE = ''minimal_mode'',
      QUALITY_LEVEL = ''quality_level'', TARGET_FPS = ''target_fps'',
      SHOW_PERFORMANCE_INFO = ''show_performance_info'', DEBUG_MODE = ''debug_mode'',
      LOG_ENABLED = ''log_enabled''\<rparr>"

definition example_tab :: "bool \<Rightarrow> gameplay_tab" where
  "example_tab checked =
     \<lparr>difficultySelect = Some ''basic'', customSkillsCheckbox = Some False,
      cameraZoomSlider = Some ''20'', minimalModeCheckbox = Some checked,
      fpsSlider = Some ''60'', showPerformanceInfoCheckbox = Some False,
      debugModeCheckbox = Some False, logEnabledCheckbox = Some False,
      hasPerformanceManager = True\<rparr>"

section \<open>Resolved profiles\<close>

lemma resolve_truthy:
  "truthy mode \<Longrightarrow> resolve mode =
     \<lparr>terrainLod = Some \<lparr>nearResolution = Fin 12, midResolution = Fin 8,
                          farResolution = Fin 6, bufferResolution = Fin 4\<rparr>,
      viewDistance = Some (Fin 2), bufferDistance = Some (Fin 3),
      chunksPerFrame = Some (Fin 1), environmentDensity = Some (Fin (25 / 100)),
      structureDensity = Some (Fin (2 / 10)), structureChunksPerFrame = Some (Fin 1),
      envChunksPerFrame = Some (Fin 1), shadowCasterDistance = Some (Fin 0)\<rparr>"
  by (simp add: getPerformanceProfile_def module_tables_def Let_def)

lemma resolve_falsy:
  "\<not> truthy mode \<Longrightarrow> resolve mode =
     \<lparr>terrainLod = Some \<lparr>nearResolution = Fin 24, midResolution = Fin 16,
                          farResolution = Fin 12, bufferResolution = Fin 8\<rparr>,
      viewDistance = Some (Fin 3), bufferDistance = Some (Fin 5),
      chunksPerFrame = Some (Fin 2), environmentDensity = Some (Fin 1),
      structureDensity = Some (Fin 1), structureChunksPerFrame = Some (Fin 2),
      envChunksPerFrame = Some (Fin 2), shadowCasterDistance = Some Infinity\<rparr>"
  by (simp add: getPerformanceProfile_def module_tables_def Let_def)

text \<open>
  C1, as amended. The function has a value for every argument and picks the tier by the
  truthiness of that argument alone: a falsy argument (\<^verbatim>\<open>false\<close>, \<^verbatim>\<open>undefined\<close>,
  \<^verbatim>\<open>null\<close>, \<^verbatim>\<open>0\<close>, \<^verbatim>\<open>NaN\<close>, the empty string) gives the profile assembled from
  the \<^verbatim>\<open>normal\<close> entries of every table, a truthy one (any non-empty string, recognised
  or not, among them) gives the profile assembled from the \<^verbatim>\<open>minimal\<close> entries, and
  in both tiers every field of the profile is defined.
\<close>

theorem getPerformanceProfile_by_truthiness:
  "resolve mode = tier_profile module_tables (if truthy mode then ''minimal'' else ''normal'')
   \<and> tier_profile module_tables ''normal'' =
       \<lparr>terrainLod = Some \<lparr>nearResolution = Fin 24, midResolution = Fin 16,
                            farResolution = Fin 12, bufferResolution = Fin 8\<rparr>,
        viewDistance = Some (Fin 3), bufferDistance = Some (Fin 5),
        chunksPerFrame = Some (Fin 2), environmentDensity = Some (Fin 1),
        structureDensity = Some (Fin 1), structureChunksPerFrame = Some (Fin 2),
        envChunksPerFrame = Some (Fin 2), shadowCasterDistance = Some Infinity\<rparr>
   \<and> tier_profile module_tables ''minimal'' =
       \<lparr>terrainLod = Some \<lparr>nearResolution = Fin 12, midResolution = Fin 8,
                            farResolution = Fin 6, bufferResolution = Fin 4\<rparr>,
        viewDistance = Some (Fin 2), bufferDistance = Some (Fin 3),
        chunksPerFrame = Some (Fin 1), environmentDensity = Some (Fin (25 / 100)),
        structureDensity = Some (Fin (2 / 10)), structureChunksPerFrame = Some (Fin 1),
        envChunksPerFrame = Some (Fin 1), shadowCasterDistance = Some (Fin 0)\<rparr>"
  by (simp add: getPerformanceProfile_def tier_profile_def module_tables_def Let_def)

theorem getPerformanceProfile_by_truthiness_witness:
  "resolve JUndefined = tier_profile module_tables ''normal''
   \<and> resolve (JBool True) = tier_profile module_tables ''minimal''"
  using getPerformanceProfile_by_truthiness [of JUndefined]
    getPerformanceProfile_by_truthiness [of "JBool True"]
  by simp

text \<open>
  C1 as stated fails: the unrecognised mode \<^verbatim>\<open>'ultra'\<close> is a non-empty string, hence
  truthy, and resolves to the minimal tier, not to the normal one.
\<close>

theorem unknown_mode_resolves_to_minimal:
  "resolve (JStr ''ultra'') = tier_profile module_tables ''minimal''
   \<and> resolve (JStr ''ultra'') \<noteq> tier_profile module_tables ''normal''"
  by (simp add: getPerformanceProfile_def tier_profile_def module_tables_def Let_def)

text \<open>
  C2. The minimal profile is at most the normal one in structure density and in view
  distance, and its shadow caster distance is 0.
\<close>

theorem minimal_dominates_downward:
  "\<exists>sm sn vm vn.
     structureDensity (resolve (JBool True)) = Some sm \<and>
     structureDensity (resolve (JBool False)) = Some sn \<and> num_le sm sn \<and>
     viewDistance (resolve (JBool True)) = Some vm \<and>
     viewDistance (resolve (JBool False)) = Some vn \<and> num_le vm vn \<and>
     shadowCasterDistance (resolve (JBool True)) = Some (Fin 0)"
  by (simp add: resolve_truthy resolve_falsy)

text \<open>
  C4. Whatever the mode, the resolved profile has a view distance and a buffer distance,
  both integers, and the buffer distance is at least the view distance.
\<close>

theorem buffer_covers_view:
  "\<exists>v b. viewDistance (resolve mode) = Some v \<and> bufferDistance (resolve mode) = Some b
     \<and> num_le v b \<and> isInteger v \<and> isInteger b"
  by (cases "truthy mode") (simp_all add: resolve_truthy resolve_falsy)

text \<open>
  C7. Whatever the mode, the three per-frame quotas of the resolved profile are
  non-negative integers and the two density multipliers lie between 0 and 1 inclusive.
  (The literal \<^verbatim>\<open>0.2\<close> is not a double; the nearest double lies strictly between 0 and
  1 just as the rational does.)
\<close>

theorem quotas_and_densities_in_range:
  "\<exists>c s e ed sd.
     chunksPerFrame (resolve mode) = Some c \<and> isInteger c \<and> num_le (Fin 0) c \<and>
     structureChunksPerFrame (resolve mode) = Some s \<and> isInteger s \<and> num_le (Fin 0) s \<and>
     envChunksPerFrame (resolve mode) = Some e \<and> isInteger e \<and> num_le (Fin 0) e \<and>
     environmentDensity (resolve mode) = Some ed \<and> num_le (Fin 0) ed \<and> num_le ed (Fin 1) \<and>
     structureDensity (resolve mode) = Some sd \<and> num_le (Fin 0) sd \<and> num_le sd (Fin 1)"
  by (cases "truthy mode") (simp_all add: resolve_truthy resolve_falsy)

text \<open>On the record of tables, a call hands the tables back as it got them.\<close>

lemma getPerformanceProfile_tables_unchanged:
  "snd (getPerformanceProfile T mode) = T"
  by (simp add: getPerformanceProfile_def Let_def)

text \<open>
  C9. Whatever the mode, the four terrain resolutions of the resolved profile decrease
  strictly from near to mid to far to buffer and the last is above 0; and each resolution
  of the minimal profile is at most the one of the normal profile for the same band.
\<close>

theorem terrain_lod_decreasing:
  "(\<exists>l. terrainLod (resolve mode) = Some l \<and>
      num_less (midResolution l) (nearResolution l) \<and>
      num_less (farResolution l) (midResolution l) \<and>
      num_less (bufferResolution l) (farResolution l) \<and>
      num_less (Fin 0) (bufferResolution l)) \<and>
   (\<exists>lm ln. terrainLod (resolve (JBool True)) = Some lm \<and>
      terrainLod (resolve (JBool False)) = Some ln \<and>
      num_le (nearResolution lm) (nearResolution ln) \<and>
      num_le (midResolution lm) (midResolution ln) \<and>
      num_le (farResolution lm) (farResolution ln) \<and>
      num_le (bufferResolution lm) (bufferResolution ln))"
  by (cases "truthy mode") (simp_all add: resolve_truthy resolve_falsy)

section \<open>What a call does to the heap\<close>

lemma get_prop_append: "a < length h \<Longrightarrow> get_prop (h @ hs) a key = get_prop h a key"
  by (simp add: get_prop_def nth_append)

text \<open>
  The two models of the function agree: on the module's heap, the object a call returns
  reads back as the profile computed on the record of tables.
\<close>

lemma heap_model_agrees:
  "read_profile (snd (getPerformanceProfile_heap module_env module_heap mode))
     (fst (getPerformanceProfile_heap module_env module_heap mode)) = resolve mode"
  by (cases "truthy mode")
     (simp_all add: read_profile_def getPerformanceProfile_heap_def alloc_def module_heap_def
        module_env_def get_prop_def getPerformanceProfile_def module_tables_def Let_def)

text \<open>
  The \<^verbatim>\<open>terrainLod\<close> of the returned object is the very reference stored in the
  table: the profile shares the table's resolution object.
\<close>

lemma profile_shares_table_lod:
  "get_prop (snd (getPerformanceProfile_heap E h mode)) (fst (getPerformanceProfile_heap E h mode))
     ''terrainLod''
   = get_prop h (TERRAIN_LOD_at E) (if truthy mode then ''minimal'' else ''normal'')"
  by (simp add: getPerformanceProfile_heap_def alloc_def get_prop_def Let_def)

text \<open>
  C8. On any heap in which the module's bindings refer to objects, a call to
  \<^verbatim>\<open>getPerformanceProfile\<close> changes no object that existed before it (the tables
  among them): all it adds is the one new object it returns. A second call with the same
  argument, made on the heap the first one left, again changes nothing and returns
  another new object with the same properties holding the same values, number for number
  and reference for reference; as the objects referred to are unchanged, the two profiles
  are structurally equal.
\<close>

theorem getPerformanceProfile_heap_pure:
  "wf_env E h \<Longrightarrow>
     (case getPerformanceProfile_heap E h mode of (a1, h1) \<Rightarrow>
        case getPerformanceProfile_heap E h1 mode of (a2, h2) \<Rightarrow>
          take (length h) h1 = h \<and> take (length h1) h2 = h1
          \<and> a1 = length h \<and> length h1 = Suc (length h)
          \<and> a2 = length h1 \<and> length h2 = Suc (length h1)
          \<and> h2 ! a2 = h1 ! a1)"
  by (simp add: getPerformanceProfile_heap_def alloc_def wf_env_def Let_def get_prop_append
      nth_append)

theorem getPerformanceProfile_heap_pure_witness:
  "wf_env module_env module_heap
   \<and> fst (getPerformanceProfile_heap module_env module_heap (JBool True)) = 11
   \<and> take 11 (snd (getPerformanceProfile_heap module_env module_heap (JBool True))) = module_heap"
proof -
  have wf: "wf_env module_env module_heap"
    by (simp add: wf_env_def module_env_def module_heap_def)
  have len: "length module_heap = 11"
    by (simp add: module_heap_def)
  from getPerformanceProfile_heap_pure [OF wf, of "JBool True"] len wf
  show ?thesis by (auto split: prod.splits)
qed

section \<open>Quotas of the scheduler\<close>

lemma evictions_no_generation:
  "filter is_terrain (evictions d r) = []"
  "filter is_structure (evictions d r) = []"
  "filter is_environment (evictions d r) = []"
  by (simp_all add: evictions_def filter_map comp_def)

lemma schedule_terrain_bound:
  "length (filter is_terrain (schedule t s e stage d)) \<le> t"
proof (induction d arbitrary: t s e)
  case Nil
  show ?case by simp
next
  case (Cons x d)
  obtain c tier where x: "x = (c, tier)" by (cases x)
  have spent: "length (filter is_terrain (schedule (t - 1) s e stage d)) \<le> t - 1"
    by (rule Cons.IH)
  have kept: "length (filter is_terrain (schedule t s' e' stage d)) \<le> t" for s' e'
    by (rule Cons.IH)
  show ?case
  proof (cases "stage c")
    case absent
    with spent kept [of s e] show ?thesis by (cases "0 < t") (simp_all add: x)
  qed (use kept in \<open>simp_all add: x\<close>)
qed

lemma schedule_structure_bound:
  "length (filter is_structure (schedule t s e stage d)) \<le> s"
proof (induction d arbitrary: t s e)
  case Nil
  show ?case by simp
next
  case (Cons x d)
  obtain c tier where x: "x = (c, tier)" by (cases x)
  have spent: "length (filter is_structure (schedule t (s - 1) e stage d)) \<le> s - 1"
    by (rule Cons.IH)
  have kept: "length (filter is_structure (schedule t' s e' stage d)) \<le> s" for t' e'
    by (rule Cons.IH)
  show ?case
  proof (cases "stage c")
    case terrainReady
    with spent kept [of t e] show ?thesis by (cases "0 < s") (simp_all add: x)
  qed (use kept in \<open>simp_all add: x\<close>)
qed

lemma schedule_environment_bound:
  "length (filter is_environment (schedule t s e stage d)) \<le> e"
proof (induction d arbitrary: t s e)
  case Nil
  show ?case by simp
next
  case (Cons x d)
  obtain c tier where x: "x = (c, tier)" by (cases x)
  have spent: "length (filter is_environment (schedule t s (e - 1) stage d)) \<le> e - 1"
    by (rule Cons.IH)
  have kept: "length (filter is_environment (schedule t' s' e stage d)) \<le> e" for t' s'
    by (rule Cons.IH)
  show ?case
  proof (cases "stage c")
    case structuresReady
    with spent kept [of t s] show ?thesis by (cases "0 < e") (simp_all add: x)
  qed (use kept in \<open>simp_all add: x\<close>)
qed

text \<open>The actions of one category do not depend on the quotas of the other two.\<close>

lemma schedule_terrain_independent:
  "filter is_terrain (schedule t s e stage d) = filter is_terrain (schedule t s' e' stage d)"
proof (induction d arbitrary: t s e s' e')
  case Nil
  show ?case by simp
next
  case (Cons x d)
  obtain c tier where x: "x = (c, tier)" by (cases x)
  have ih: "filter is_terrain (schedule t1 s1 e1 stage d)
              = filter is_terrain (schedule t1 0 0 stage d)" for t1 s1 e1
    by (rule Cons.IH)
  have "filter is_terrain (schedule t s1 e1 stage (x # d))
          = filter is_terrain (schedule t 0 0 stage (x # d))" for s1 e1
    by (cases "stage c") (auto simp: x intro: ih)
  from this [of s e] this [of s' e'] show ?case by simp
qed

lemma schedule_structure_independent:
  "filter is_structure (schedule t s e stage d) = filter is_structure (schedule t' s e' stage d)"
proof (induction d arbitrary: t s e t' e')
  case Nil
  show ?case by simp
next
  case (Cons x d)
  obtain c tier where x: "x = (c, tier)" by (cases x)
  have ih: "filter is_structure (schedule t1 s1 e1 stage d)
              = filter is_structure (schedule 0 s1 0 stage d)" for t1 s1 e1
    by (rule Cons.IH)
  have "filter is_structure (schedule t1 s e1 stage (x # d))
          = filter is_structure (schedule 0 s 0 stage (x # d))" for t1 e1
    by (cases "stage c") (auto simp: x intro: ih)
  from this [of t e] this [of t' e'] show ?case by simp
qed

lemma schedule_environment_independent:
  "filter is_environment (schedule t s e stage d)
     = filter is_environment (schedule t' s' e stage d)"
proof (induction d arbitrary: t s e t' s')
  case Nil
  show ?case by simp
next
  case (Cons x d)
  obtain c tier where x: "x = (c, tier)" by (cases x)
  have ih: "filter is_environment (schedule t1 s1 e1 stage d)
              = filter is_environment (schedule 0 0 e1 stage d)" for t1 s1 e1
    by (rule Cons.IH)
  have "filter is_environment (schedule t1 s1 e stage (x # d))
          = filter is_environment (schedule 0 0 e stage (x # d))" for t1 s1
    by (cases "stage c") (auto simp: x intro: ih)
  from this [of t s] this [of t' s'] show ?case by simp
qed

text \<open>
  The scheduler does emit work: with two chunks wanted and none resident, a terrain quota
  of 1 yields the terrain action of the nearer chunk and nothing else.
\<close>

lemma step_emits_nearest_first:
  "step [((1, 0), near), ((2, 0), mid)] []
     \<lparr>terrainQuota = 1, structureQuota = 1, environmentQuota = 1\<rparr>
   = [GenerateTerrain (1, 0) near]"
  by (simp add: step_def evictions_def stage_of_def)

text \<open>
  C3. In one frame tick the scheduler emits at most as many terrain actions as the terrain
  quota (chunksPerFrame), at most as many structure actions as the structure quota
  (structureChunksPerFrame) and at most as many environment actions as the environment
  quota (envChunksPerFrame); and each category is accounted on its own: the actions of a
  category stay the same when the quotas of the other two categories are changed.
\<close>

theorem step_respects_quotas:
  "length (filter is_terrain (step d r q)) \<le> terrainQuota q
   \<and> length (filter is_structure (step d r q)) \<le> structureQuota q
   \<and> length (filter is_environment (step d r q)) \<le> environmentQuota q
   \<and> filter is_terrain (step d r (q\<lparr>structureQuota := s', environmentQuota := e'\<rparr>))
       = filter is_terrain (step d r q)
   \<and> filter is_structure (step d r (q\<lparr>terrainQuota := t', environmentQuota := e'\<rparr>))
       = filter is_structure (step d r q)
   \<and> filter is_environment (step d r (q\<lparr>terrainQuota := t', structureQuota := s'\<rparr>))
       = filter is_environment (step d r q)"
proof -
  have "length (filter is_terrain (step d r q)) \<le> terrainQuota q"
    by (simp add: step_def evictions_no_generation schedule_terrain_bound)
  moreover have "length (filter is_structure (step d r q)) \<le> structureQuota q"
    by (simp add: step_def evictions_no_generation schedule_structure_bound)
  moreover have "length (filter is_environment (step d r q)) \<le> environmentQuota q"
    by (simp add: step_def evictions_no_generation schedule_environment_bound)
  moreover have
    "filter is_terrain (step d r (q\<lparr>structureQuota := s', environmentQuota := e'\<rparr>))
       = filter is_terrain (step d r q)"
    using schedule_terrain_independent [of "terrainQuota q" s' e' "stage_of r" d]
    by (simp add: step_def evictions_no_generation)
  moreover have
    "filter is_structure (step d r (q\<lparr>terrainQuota := t', environmentQuota := e'\<rparr>))
       = filter is_structure (step d r q)"
    using schedule_structure_independent [of t' "structureQuota q" e' "stage_of r" d]
    by (simp add: step_def evictions_no_generation)
  moreover have
    "filter is_environment (step d r (q\<lparr>terrainQuota := t', structureQuota := s'\<rparr>))
       = filter is_environment (step d r q)"
    using schedule_environment_independent [of t' s' "environmentQuota q" "stage_of r" d]
    by (simp add: step_def evictions_no_generation)
  ultimately show ?thesis by blast
qed

section \<open>Shadows after optimizeScene\<close>

lemma objects_traverse: "objects (traverse f t) = map f (objects t)"
  by (induction t) (simp add: map_concat cong: map_cong)


lemma optimize_object_keeps_castShadow:
  "isMesh (optimize_object False fg ob) = isMesh ob \<and>
   castShadow (optimize_object False fg ob) = castShadow ob"
  by (auto simp: optimize_object_def optimize_mesh_part_def optimize_light_part_def Let_def
      split: option.splits if_splits)




text \<open>
  C10. For a quality level other than \<^verbatim>\<open>'minimal'\<close> (an omitted one, which defaults to
  \<^verbatim>\<open>'ultra'\<close>, included), \<^verbatim>\<open>optimizeScene\<close> visits the same objects in the same order
  and every mesh among them keeps its \<^verbatim>\<open>castShadow\<close> flag: one that did not cast
  shadows still does not, one that did still does.
\<close>

theorem other_levels_keep_castShadow:
  "qualityLevel \<noteq> JStr ''minimal'' \<Longrightarrow>
   length (objects (scene_graph (optimizeScene sc qualityLevel)))
     = length (objects (scene_graph sc))
   \<and> (\<forall>i < length (objects (scene_graph sc)).
         isMesh (objects (scene_graph sc) ! i) \<longrightarrow>
           isMesh (objects (scene_graph (optimizeScene sc qualityLevel)) ! i) \<and>
           castShadow (objects (scene_graph (optimizeScene sc qualityLevel)) ! i)
             = castShadow (objects (scene_graph sc) ! i))"
  by (simp add: optimizeScene_def objects_traverse Let_def optimize_object_keeps_castShadow)

theorem other_levels_keep_castShadow_witness:
  "JStr ''ultra'' \<noteq> JStr ''minimal''
   \<and> (1::nat) < length (objects (scene_graph example_scene))
   \<and> isMesh (objects (scene_graph example_scene) ! 1)
   \<and> castShadow (objects (scene_graph example_scene) ! 1)
   \<and> castShadow (objects (scene_graph (optimizeScene example_scene (JStr ''ultra''))) ! 1)"
  using other_levels_keep_castShadow [of "JStr ''ultra''" example_scene]
  by (simp add: example_scene_def)

section \<open>The quality level the settings tab stores\<close>












text \<open>
  When the browser refuses every write, both functions end at their first write with the
  exception and the storage is as it was.
\<close>

lemma refused_write_ends_run:
  "saveSettings refuse_all example_keys (example_tab True) Map.empty
     = (Map.empty, Some QuotaExceededError)
   \<and> minimalModeChanged refuse_all example_keys (example_tab True) Map.empty
     = (Map.empty, None, Some QuotaExceededError)"
  by (simp add: minimalModeChanged_def saveSettings_def example_keys_def example_tab_def
      write_item_def setItem_def refuse_all_def Let_def)

end
